theory Spec2Isabelle
  imports Complex_Main "HOL-Library.Sublist" "HOL-Library.AList"
begin

section \<open>Python values, exceptions and strings\<close>

text \<open>
  The router and the MCP client handle values that come out of \<^verbatim>\<open>json.loads\<close> and
  \<^verbatim>\<open>response.json()\<close>. They are modelled by the datatype below: a JSON object is the
  Python dict it decodes to, kept as the list of its items in insertion order; \<open>JNull\<close>
  is Python's \<^verbatim>\<open>None\<close>. Python floats are idealised as real numbers. A string is
  a list of 8-bit characters: a character code above 127 stands for a character outside
  ASCII, and lower-casing and stripping are modelled on the ASCII part.
\<close>

datatype json =
    JNull
  | JBool bool
  | JInt int
  | JFloat real
  | JStr string
  | JArr "json list"
  | JObj "(string \<times> json) list"

text \<open>
  An exception is its class and its string form \<^verbatim>\<open>str(e)\<close>. The classes are those of
  the hierarchy below \<^verbatim>\<open>Exception\<close>, which is what the handlers of the source
  (\<^verbatim>\<open>except Exception\<close>) select; \<open>OtherError\<close> stands for any further
  subclass of \<^verbatim>\<open>Exception\<close>, with its class name. Interpreter exits that derive from
  \<^verbatim>\<open>BaseException\<close> only (\<^verbatim>\<open>KeyboardInterrupt\<close>, \<^verbatim>\<open>SystemExit\<close>) are not
  exceptions in this sense and are outside the model.
\<close>

datatype exc_class =
    PlainException
  | ValueError
  | TypeError
  | AttributeError
  | IndexError
  | RequestException
  | JSONDecodeError
  | OtherError string

datatype exc = Exc (exc_cls: exc_class) (exc_str: string)

definition newline :: string where
  "newline = [CHR 0x0A]"

text \<open>\<^verbatim>\<open>sep.join(xs)\<close>\<close>

fun join :: "string \<Rightarrow> string list \<Rightarrow> string" where
  "join sep [] = []"
| "join sep [x] = x"
| "join sep (x # y # ys) = x @ sep @ join sep (y # ys)"

text \<open>\<^verbatim>\<open>str.lower()\<close> on ASCII text: the letters A to Z move to a to z.\<close>

definition lower_char :: "char \<Rightarrow> char" where
  "lower_char c =
     (let n = (of_char c :: nat) in if 65 \<le> n \<and> n \<le> 90 then char_of (n + 32) else c)"

definition py_lower :: "string \<Rightarrow> string" where
  "py_lower s = map lower_char s"

text \<open>
  \<^verbatim>\<open>str.strip()\<close> on ASCII text: removes leading and trailing white space
  (tab, line feed, vertical tab, form feed, carriage return, the separators 28 to 31,
  and the space).
\<close>

definition is_space :: "char \<Rightarrow> bool" where
  "is_space c = (let n = (of_char c :: nat) in (9 \<le> n \<and> n \<le> 13) \<or> (28 \<le> n \<and> n \<le> 32))"

definition py_strip :: "string \<Rightarrow> string" where
  "py_strip s = rev (dropWhile is_space (rev (dropWhile is_space s)))"

text \<open>
  \<^verbatim>\<open>kw in s\<close> on strings: \<open>kw\<close> occurs in \<open>s\<close> as a contiguous run of characters,
  found by trying every position of \<open>s\<close> from the left.
\<close>

fun str_contains :: "string \<Rightarrow> string \<Rightarrow> bool" where
  "str_contains kw [] = (kw = [])"
| "str_contains kw (c # cs) = (prefix kw (c # cs) \<or> str_contains kw cs)"

text \<open>\<^verbatim>\<open>str(n)\<close> for an integer: its decimal digits, with a minus sign when negative.\<close>

fun str_nat :: "nat \<Rightarrow> string" where
  "str_nat n =
     (if n < 10 then [char_of (48 + n)] else str_nat (n div 10) @ [char_of (48 + n mod 10)])"

declare str_nat.simps [simp del]

definition str_int :: "int \<Rightarrow> string" where
  "str_int i = (if i < 0 then CHR ''-'' # str_nat (nat (- i)) else str_nat (nat i))"

text \<open>
  \<^verbatim>\<open>str(v)\<close>, as an f-string placeholder \<^verbatim>\<open>{v}\<close> renders a value. The renderings of
  floats, lists and dicts are not modelled: they are given by the parameter \<open>rend\<close>.
\<close>

fun py_str :: "(json \<Rightarrow> string) \<Rightarrow> json \<Rightarrow> string" where
  "py_str rend JNull = ''None''"
| "py_str rend (JBool b) = (if b then ''True'' else ''False'')"
| "py_str rend (JInt i) = str_int i"
| "py_str rend (JStr s) = s"
| "py_str rend v = rend v"

text \<open>\<^verbatim>\<open>d.get(k)\<close> on a dict: the value stored under the key, or nothing.\<close>

definition dict_get :: "(string \<times> json) list \<Rightarrow> string \<Rightarrow> json option" where
  "dict_get d k = map_of d k"

text \<open>\<^verbatim>\<open>type(v).__name__\<close>, as the interpreter's own error messages print it.\<close>

fun type_name :: "json \<Rightarrow> string" where
  "type_name JNull = ''NoneType''"
| "type_name (JBool _) = ''bool''"
| "type_name (JInt _) = ''int''"
| "type_name (JFloat _) = ''float''"
| "type_name (JStr _) = ''str''"
| "type_name (JArr _) = ''list''"
| "type_name (JObj _) = ''dict''"

text \<open>
  The \<^verbatim>\<open>AttributeError\<close> of \<^verbatim>\<open>v.get(...)\<close> on a value that is not a dict.
\<close>

definition no_attribute :: "json \<Rightarrow> string \<Rightarrow> exc" where
  "no_attribute v a =
     Exc AttributeError
       ([CHR 0x27] @ type_name v @ [CHR 0x27] @ '' object has no attribute ''
          @ [CHR 0x27] @ a @ [CHR 0x27])"

section \<open>The flow router (router/flow\_router.py)\<close>

subsection \<open>FLOW\_PATTERNS\<close>

record flow_info =
  flow_keywords :: "string list"
  flow_description :: string
  flow_examples :: "string list"

text \<open>
  The class attribute \<^verbatim>\<open>FLOW_PATTERNS\<close>: a dict literal, which Python iterates in the
  order of the literal. It is kept as the list of its items.
\<close>

definition FLOW_PATTERNS :: "(string \<times> flow_info) list" where
  "FLOW_PATTERNS =
    [(''campaign_setup_flow'',
      \<lparr>flow_keywords = [''create'', ''launch'', ''set up'', ''new campaigns'', ''bulk create'',
                   ''build'', ''setup'', ''establish''],
       flow_description = ''Creating new campaigns, bulk campaign creation'',
       flow_examples = [''Create 10 holiday campaigns with $5000 budget each'',
                   ''Set up 5 campaigns for Black Friday'',
                   ''Launch new campaigns for Q4'',
                   ''Build 20 campaigns targeting millennials'']\<rparr>),
     (''optimization_flow'',
      \<lparr>flow_keywords = [''pause'', ''optimize'', ''adjust'', ''improve'', ''reduce spend'',
                   ''underperforming'', ''increase performance'', ''scale'',
                   ''bid adjustment''],
       flow_description =
         ''Optimizing campaign performance, pausing underperformers, adjusting budgets'',
       flow_examples = [''Pause all underperforming campaigns'',
                   ''Optimize campaigns with high CPA'',
                   ''Adjust bids for better performance'',
                   ''Reduce spend on low-performing strategies'']\<rparr>),
     (''analytics_flow'',
      \<lparr>flow_keywords = [''report'', ''analyze'', ''show'', ''performance'', ''budget utilization'',
                   ''metrics'', ''dashboard'', ''statistics'', ''insights'', ''data''],
       flow_description =
         ''Analyzing campaign performance, generating reports, showing metrics'',
       flow_examples = [''Generate performance report for all campaigns'',
                   ''Show budget utilization analysis'',
                   ''Analyze campaign metrics for last 30 days'',
                   ''Create dashboard of key performance indicators'']\<rparr>),
     (''compliance_flow'',
      \<lparr>flow_keywords = [''audit'', ''permissions'', ''access'', ''security'', ''compliance'',
                   ''users'', ''roles'', ''governance'', ''violation''],
       flow_description = ''Auditing user access, checking permissions, compliance reviews'',
       flow_examples = [''Audit all user permissions for security review'',
                   ''Check for users with admin access'',
                   ''Find compliance violations in permissions'',
                   ''Review user access patterns'']\<rparr>),
     (''creative_flow'',
      \<lparr>flow_keywords = [''creative'', ''refresh'', ''fatigue'', ''assets'', ''ads'', ''banner'',
                   ''image'', ''video'', ''copy''],
       flow_description =
         ''Managing creative assets, identifying refresh needs, creative fatigue analysis'',
       flow_examples = [''Find all creatives that need refresh'',
                   ''Analyze creative fatigue across campaigns'',
                   ''Identify underperforming creatives'',
                   ''Plan creative refresh strategy'']\<rparr>)]"

text \<open>The five flow names, in the order of the literal.\<close>

definition flow_names :: "string list" where
  "flow_names = [''campaign_setup_flow'', ''optimization_flow'', ''analytics_flow'',
                 ''compliance_flow'', ''creative_flow'']"

subsection \<open>\_fallback\_classification\<close>

text \<open>
  \<^verbatim>\<open>sum(1 for keyword in info["keywords"] if keyword in query_lower)\<close>
\<close>

definition keyword_score :: "string \<Rightarrow> flow_info \<Rightarrow> nat" where
  "keyword_score query_lower info =
     sum_list (map (\<lambda>keyword. 1) (filter (\<lambda>keyword. str_contains keyword query_lower)
                                             (flow_keywords info)))"

text \<open>
  The loop that fills the dict \<^verbatim>\<open>scores\<close>: each \<^verbatim>\<open>scores[flow] = score\<close> replaces the
  entry of a key already present and appends a new key at the end.
\<close>

definition fill_scores :: "string \<Rightarrow> (string \<times> flow_info) list \<Rightarrow> (string \<times> nat) list" where
  "fill_scores query_lower patterns =
     fold (\<lambda>(flow, info) scores. AList.update flow (keyword_score query_lower info) scores)
          patterns []"

text \<open>
  \<^verbatim>\<open>max(scores, key=scores.get)\<close> walks the keys of \<^verbatim>\<open>scores\<close> in insertion order and
  compares the scores stored under them: it keeps the first key and replaces it only by a
  key whose score is strictly greater. The empty dict makes \<^verbatim>\<open>max\<close> raise
  \<^verbatim>\<open>ValueError\<close>. \<open>max_item\<close> is the loop, over the items of the dict, with the
  item kept so far as its first argument.
\<close>

fun max_item :: "(string \<times> nat) \<Rightarrow> (string \<times> nat) list \<Rightarrow> (string \<times> nat)" where
  "max_item best [] = best"
| "max_item best (x # xs) = max_item (if snd x > snd best then x else best) xs"

definition py_max_by_score :: "(string \<times> nat) list \<Rightarrow> exc + (string \<times> nat)" where
  "py_max_by_score scores =
     (case scores of
        [] \<Rightarrow> Inl (Exc ValueError ''max() arg is an empty sequence'')
      | x # xs \<Rightarrow> Inr (max_item x xs))"

text \<open>
  \<^verbatim>\<open>min(best_score / 3.0, 1.0) if best_score > 0 else 0.3\<close>
\<close>

definition confidence_of :: "nat \<Rightarrow> real" where
  "confidence_of best_score =
     (if best_score > 0 then min (real best_score / 3.0) 1.0 else 0.3)"

definition fallback_classification :: "string \<Rightarrow> exc + (string \<times> json)" where
  "fallback_classification query =
     (let query_lower = py_lower query;
          scores = fill_scores query_lower FLOW_PATTERNS
      in case py_max_by_score scores of
           Inl e \<Rightarrow> Inl e
         | Inr (best_flow, best_score) \<Rightarrow> Inr (best_flow, JFloat (confidence_of best_score)))"

subsection \<open>classify\_intent\<close>

text \<open>
  The chat completion request and the external LLM. The LLM is a parameter: given the
  request it either raises or returns a response, of which the router reads the
  \<^verbatim>\<open>message.content\<close> of each element of \<^verbatim>\<open>choices\<close> (a string or \<^verbatim>\<open>None\<close>).
\<close>

record chat_request =
  req_model :: string
  req_messages :: "(string \<times> string) list"
  req_temperature :: real
  req_max_tokens :: nat

type_synonym llm = "chat_request \<Rightarrow> exc + string option list"

text \<open>
  \<^verbatim>\<open>json.loads\<close> is a parameter as well: on a string it either raises
  \<^verbatim>\<open>JSONDecodeError\<close> (\<open>Inl\<close>, with the string form of the error) or returns the
  decoded value.
\<close>

type_synonym loads = "string \<Rightarrow> string + json"

text \<open>A list comprehension whose element expression may raise stops at the first raise.\<close>

fun collect :: "(exc + 'a) list \<Rightarrow> exc + 'a list" where
  "collect [] = Inr []"
| "collect (Inl e # rs) = Inl e"
| "collect (Inr x # rs) = (case collect rs of Inl e \<Rightarrow> Inl e | Inr xs \<Rightarrow> Inr (x # xs))"

text \<open>
  One element of the comprehension behind \<^verbatim>\<open>flow_descriptions\<close>;
  \<^verbatim>\<open>info['examples'][0]\<close> raises \<^verbatim>\<open>IndexError\<close> on an empty list.
\<close>

definition describe_flow :: "string \<times> flow_info \<Rightarrow> exc + string" where
  "describe_flow = (\<lambda>(flow, info).
     case flow_examples info of
       [] \<Rightarrow> Inl (Exc IndexError ''list index out of range'')
     | example # _ \<Rightarrow>
         Inr (''- '' @ flow @ '': '' @ flow_description info @ newline
              @ ''  Keywords: '' @ join '', '' (take 5 (flow_keywords info)) @ newline
              @ ''  Example: '' @ example))"

definition flow_descriptions :: "exc + string" where
  "flow_descriptions =
     (case collect (map describe_flow FLOW_PATTERNS) of
        Inl e \<Rightarrow> Inl e
      | Inr lines \<Rightarrow> Inr (join newline lines))"

definition build_prompt :: "string \<Rightarrow> exc + string" where
  \<open>build_prompt query =
     (case flow_descriptions of
        Inl e \<Rightarrow> Inl e
      | Inr descriptions \<Rightarrow>
          Inr (''You are a query classifier for a campaign management system.'' @ newline
             @ ''Classify the following user query into one of these flows:'' @ newline
             @ newline
             @ descriptions @ newline
             @ newline
             @ ''User Query: "'' @ query @ ''"'' @ newline
             @ newline
             @ ''Respond with a JSON object containing:'' @ newline
             @ ''- "flow": The flow name (one of: campaign_setup_flow, optimization_flow, analytics_flow, compliance_flow, creative_flow)'' @ newline
             @ ''- "confidence": A confidence score between 0.0 and 1.0'' @ newline
             @ ''- "reasoning": Brief explanation of why this flow was chosen'' @ newline
             @ newline
             @ ''Example response:'' @ newline
             @ ''{"flow": "campaign_setup_flow", "confidence": 0.95, "reasoning": "Query asks to create new campaigns"}'' @ newline))\<close>

definition classification_request :: "string \<Rightarrow> chat_request" where
  "classification_request prompt =
     \<lparr>req_model = ''gpt-4'',
      req_messages =
        [(''system'', ''You are a precise query classifier. Always respond with valid JSON.''),
         (''user'', prompt)],
      req_temperature = 0.1,
      req_max_tokens = 200\<rparr>"

text \<open>
  \<^verbatim>\<open>flow_name not in self.FLOW_PATTERNS\<close>, where \<^verbatim>\<open>flow_name\<close> is what
  \<^verbatim>\<open>result.get("flow")\<close> gave: a missing key gives \<^verbatim>\<open>None\<close>; a list or a dict cannot
  be hashed and the test raises \<^verbatim>\<open>TypeError\<close>; a value that is not a string is no key
  of the dict.
\<close>

definition not_in_flow_patterns :: "json option \<Rightarrow> exc + bool" where
  "not_in_flow_patterns flow_name =
     (case flow_name of
        Some (JStr f) \<Rightarrow> Inr (f \<notin> set (map fst FLOW_PATTERNS))
      | Some (JArr xs) \<Rightarrow>
          Inl (Exc TypeError (''unhashable type: '' @ [CHR 0x27] @ ''list'' @ [CHR 0x27]))
      | Some (JObj d) \<Rightarrow>
          Inl (Exc TypeError (''unhashable type: '' @ [CHR 0x27] @ ''dict'' @ [CHR 0x27]))
      | _ \<Rightarrow> Inr True)"

text \<open>
  The placeholder \<^verbatim>\<open>{confidence:.2f}\<close> inside the \<^verbatim>\<open>print\<close> calls: it formats ints,
  floats and bools, raises \<^verbatim>\<open>ValueError\<close> on a string and \<^verbatim>\<open>TypeError\<close> on
  \<^verbatim>\<open>None\<close>, a list or a dict. The printed text itself is not modelled: \<open>None\<close> is
  the successful print.
\<close>

definition format_2f :: "json \<Rightarrow> exc option" where
  "format_2f v =
     (case v of
        JInt _ \<Rightarrow> None
      | JFloat _ \<Rightarrow> None
      | JBool _ \<Rightarrow> None
      | JStr _ \<Rightarrow>
          Some (Exc ValueError (''Unknown format code '' @ [CHR 0x27] @ ''f'' @ [CHR 0x27]
                                 @ '' for object of type '' @ [CHR 0x27] @ ''str'' @ [CHR 0x27]))
      | _ \<Rightarrow>
          Some (Exc TypeError (''unsupported format string passed to '' @ type_name v
                                @ ''.__format__'')))"

text \<open>
  The body of the \<^verbatim>\<open>try\<close> block of \<^verbatim>\<open>classify_intent\<close>: \<open>Inl\<close> is an exception
  raised inside it, \<open>Inr\<close> is the value of one of its two \<^verbatim>\<open>return\<close> statements.
  A \<^verbatim>\<open>flow_name\<close> that passed the membership test is a string, so the last branch of
  the innermost case distinction is never taken.
\<close>

definition classify_try :: "llm \<Rightarrow> loads \<Rightarrow> string \<Rightarrow> string \<Rightarrow> exc + (string \<times> json)" where
  "classify_try client json_loads prompt query =
     (case client (classification_request prompt) of
        Inl e \<Rightarrow> Inl e
      | Inr choices \<Rightarrow>
     (case choices of
        [] \<Rightarrow> Inl (Exc IndexError ''list index out of range'')
      | content # _ \<Rightarrow>
     (case content of
        None \<Rightarrow> Inl (no_attribute JNull ''strip'')
      | Some text \<Rightarrow>
     (let result_text = py_strip text in
      case json_loads result_text of
        Inl msg \<Rightarrow> Inl (Exc JSONDecodeError msg)
      | Inr result \<Rightarrow>
     (case result of
        JObj d \<Rightarrow>
          (let flow_name = dict_get d ''flow'';
               confidence = (case dict_get d ''confidence'' of None \<Rightarrow> JFloat 0.5 | Some c \<Rightarrow> c)
           in case not_in_flow_patterns flow_name of
                Inl e \<Rightarrow> Inl e
              | Inr True \<Rightarrow> fallback_classification query
              | Inr False \<Rightarrow>
                  (case format_2f confidence of
                     Some e \<Rightarrow> Inl e
                   | None \<Rightarrow>
                       (case flow_name of
                          Some (JStr f) \<Rightarrow> Inr (f, confidence)
                        | _ \<Rightarrow> fallback_classification query)))
      | _ \<Rightarrow> Inl (no_attribute result ''get''))))))"

text \<open>
  \<^verbatim>\<open>classify_intent\<close>: the prompt is built before the \<^verbatim>\<open>try\<close>; every exception
  raised inside the \<^verbatim>\<open>try\<close> is handled by the keyword classification.
\<close>

definition classify_intent :: "llm \<Rightarrow> loads \<Rightarrow> string \<Rightarrow> exc + (string \<times> json)" where
  "classify_intent client json_loads query =
     (case build_prompt query of
        Inl e \<Rightarrow> Inl e
      | Inr prompt \<Rightarrow>
          (case classify_try client json_loads prompt query of
             Inl e \<Rightarrow> fallback_classification query
           | Inr r \<Rightarrow> Inr r))"

subsection \<open>route and execute\_flow\<close>












subsection \<open>FlowRouter.\_\_init\_\_\<close>

text \<open>
  The constructor reads the environment (\<^verbatim>\<open>os.getenv\<close>) and builds the OpenAI client;
  both are parameters. \<^verbatim>\<open>a or b\<close> is \<^verbatim>\<open>a\<close> when \<^verbatim>\<open>a\<close> is truthy, that is a
  non-empty string, and \<^verbatim>\<open>b\<close> otherwise; \<^verbatim>\<open>not a\<close> holds of \<^verbatim>\<open>None\<close> and of the
  empty string.
\<close>

definition truthy :: "string option \<Rightarrow> bool" where
  "truthy v = (case v of None \<Rightarrow> False | Some s \<Rightarrow> s \<noteq> [])"

definition py_or :: "string option \<Rightarrow> string option \<Rightarrow> string option" where
  "py_or a b = (if truthy a then a else b)"

record 'c flow_router =
  router_api_key :: "string option"
  router_client :: 'c

definition FlowRouter_init ::
  "(string option \<Rightarrow> exc + 'c) \<Rightarrow> (string \<Rightarrow> string option) \<Rightarrow> string option
     \<Rightarrow> exc + 'c flow_router" where
  "FlowRouter_init OpenAI getenv openai_api_key =
     (let api_key = py_or openai_api_key (getenv ''OPENAI_API_KEY'') in
      if \<not> truthy api_key then
        Inl (Exc ValueError ''OpenAI API key is required. Set OPENAI_API_KEY environment variable or pass it to the constructor.'')
      else case OpenAI api_key of
             Inl e \<Rightarrow> Inl e
           | Inr c \<Rightarrow> Inr \<lparr>router_api_key = api_key, router_client = c\<rparr>)"

section \<open>The MCP client (shared/mcp\_client.py)\<close>

record mcp_client =
  server_url :: string
  api_key :: string
  request_id :: int

definition MCPClient_init :: "string \<Rightarrow> string \<Rightarrow> mcp_client" where
  "MCPClient_init url key = \<lparr>server_url = url, api_key = key, request_id = 0\<rparr>"

definition get_next_request_id :: "mcp_client \<Rightarrow> int \<times> mcp_client" where
  "get_next_request_id c =
     (let c' = c\<lparr>request_id := request_id c + 1\<rparr> in (request_id c', c'))"

text \<open>
  The HTTP exchange is a parameter. It stands for \<^verbatim>\<open>requests.post(url, json=payload,
  headers=headers, timeout=timeout)\<close>, \<^verbatim>\<open>response.raise_for_status()\<close> and
  \<^verbatim>\<open>response.json()\<close> together: it raises, or returns the decoded body. The class
  \<open>RequestException\<close> stands for every instance of
  \<^verbatim>\<open>requests.exceptions.RequestException\<close>, and \<open>JSONDecodeError\<close> for an instance of
  \<^verbatim>\<open>json.JSONDecodeError\<close> that is not one of those.
\<close>

type_synonym http_post = "string \<Rightarrow> json \<Rightarrow> (string \<times> string) list \<Rightarrow> int \<Rightarrow> exc + json"

text \<open>
  The operators the body applies to decoded values, with the failures the interpreter
  raises when a value has another type than the code expects (the messages are worded as by
  CPython 3.11): \<^verbatim>\<open>k in v\<close>, \<^verbatim>\<open>v[k]\<close> and \<^verbatim>\<open>v.get(k, dflt)\<close> for a string key.
\<close>

definition py_in :: "string \<Rightarrow> json \<Rightarrow> exc + bool" where
  "py_in k v =
     (case v of
        JObj d \<Rightarrow> Inr (k \<in> set (map fst d))
      | JArr xs \<Rightarrow> Inr (JStr k \<in> set xs)
      | JStr s \<Rightarrow> Inr (str_contains k s)
      | _ \<Rightarrow> Inl (Exc TypeError (''argument of type '' @ [CHR 0x27] @ type_name v @ [CHR 0x27]
                                  @ '' is not iterable'')))"

definition py_getitem :: "json \<Rightarrow> string \<Rightarrow> exc + json" where
  "py_getitem v k =
     (case v of
        JObj d \<Rightarrow>
          (case dict_get d k of
             Some x \<Rightarrow> Inr x
           | None \<Rightarrow> Inl (Exc (OtherError ''KeyError'') ([CHR 0x27] @ k @ [CHR 0x27])))
      | JArr xs \<Rightarrow> Inl (Exc TypeError ''list indices must be integers or slices, not str'')
      | JStr s \<Rightarrow>
          Inl (Exc TypeError (''string indices must be integers, not '' @ [CHR 0x27] @ ''str''
                               @ [CHR 0x27]))
      | _ \<Rightarrow> Inl (Exc TypeError ([CHR 0x27] @ type_name v @ [CHR 0x27]
                                  @ '' object is not subscriptable'')))"

definition py_get :: "json \<Rightarrow> string \<Rightarrow> json \<Rightarrow> exc + json" where
  "py_get v k dflt =
     (case v of
        JObj d \<Rightarrow> Inr (case dict_get d k of None \<Rightarrow> dflt | Some x \<Rightarrow> x)
      | _ \<Rightarrow> Inl (no_attribute v ''get''))"

text \<open>
  Lines 86 to 97 of \<^verbatim>\<open>call_tool\<close>: the handling of \<^verbatim>\<open>result = data["result"]\<close>.
  \<^verbatim>\<open>json.loads\<close> raises \<^verbatim>\<open>TypeError\<close> on an argument that is not a string; its
  \<^verbatim>\<open>JSONDecodeError\<close> is handled by returning the text.
\<close>

definition unwrap_result :: "loads \<Rightarrow> json \<Rightarrow> exc + json" where
  "unwrap_result json_loads result =
     (case result of
        JObj r \<Rightarrow>
          (case dict_get r ''content'' of
             Some (JArr (first # rest)) \<Rightarrow>
               (case py_get first ''type'' JNull of
                  Inl e \<Rightarrow> Inl e
                | Inr ty \<Rightarrow>
                    if ty = JStr ''text'' then
                      (case py_get first ''text'' (JStr []) of
                         Inl e \<Rightarrow> Inl e
                       | Inr text_content \<Rightarrow>
                           (case text_content of
                              JStr s \<Rightarrow>
                                (case json_loads s of
                                   Inr parsed \<Rightarrow> Inr parsed
                                 | Inl msg \<Rightarrow> Inr text_content)
                            | _ \<Rightarrow>
                                Inl (Exc TypeError
                                      (''the JSON object must be str, bytes or bytearray, not ''
                                         @ type_name text_content))))
                    else Inr result)
           | _ \<Rightarrow> Inr result)
      | _ \<Rightarrow> Inr result)"

text \<open>
  The body of the \<^verbatim>\<open>try\<close> block of \<^verbatim>\<open>call_tool\<close>, from the decoded body \<^verbatim>\<open>data\<close>
  on; \<open>rend\<close> renders the values that \<open>py_str\<close> leaves open.
\<close>

definition handle_response :: "loads \<Rightarrow> (json \<Rightarrow> string) \<Rightarrow> json \<Rightarrow> exc + json" where
  "handle_response json_loads rend data =
     (case py_in ''error'' data of
        Inl e \<Rightarrow> Inl e
      | Inr True \<Rightarrow>
          (case py_getitem data ''error'' of
             Inl e \<Rightarrow> Inl e
           | Inr err \<Rightarrow>
          (case py_get err ''message'' (JStr ''Unknown error'') of
             Inl e \<Rightarrow> Inl e
           | Inr error_msg \<Rightarrow>
          (case py_get err ''code'' (JInt (- 1)) of
             Inl e \<Rightarrow> Inl e
           | Inr error_code \<Rightarrow>
               Inl (Exc PlainException
                     (''MCP Error ('' @ py_str rend error_code @ ''): ''
                        @ py_str rend error_msg)))))
      | Inr False \<Rightarrow>
          (case py_in ''result'' data of
             Inl e \<Rightarrow> Inl e
           | Inr True \<Rightarrow>
               (case py_getitem data ''result'' of
                  Inl e \<Rightarrow> Inl e
                | Inr result \<Rightarrow> unwrap_result json_loads result)
           | Inr False \<Rightarrow> Inr JNull))"

definition call_tool_headers :: "mcp_client \<Rightarrow> (string \<times> string) list" where
  "call_tool_headers c =
     [(''Content-Type'', ''application/json''), (''X-API-Key'', api_key c)]"

definition call_tool_payload :: "string \<Rightarrow> json \<Rightarrow> int \<Rightarrow> json" where
  "call_tool_payload name arguments rid =
     JObj [(''jsonrpc'', JStr ''2.0''),
           (''method'', JStr ''tools/call''),
           (''params'', JObj [(''name'', JStr name), (''arguments'', arguments)]),
           (''id'', JInt rid)]"

text \<open>
  \<^verbatim>\<open>call_tool\<close>: the request id is taken before the \<^verbatim>\<open>try\<close>; the two handlers wrap a
  \<^verbatim>\<open>RequestException\<close> and a \<^verbatim>\<open>JSONDecodeError\<close> into a plain \<^verbatim>\<open>Exception\<close>; any
  other exception raised in the body, the plain \<^verbatim>\<open>Exception\<close> of the error branch among
  them, leaves the function as it is. The result is paired with the client after the call.
\<close>

definition call_tool ::
  "http_post \<Rightarrow> loads \<Rightarrow> (json \<Rightarrow> string) \<Rightarrow> mcp_client \<Rightarrow> string \<Rightarrow> json \<Rightarrow> int
     \<Rightarrow> (exc + json) \<times> mcp_client" where
  "call_tool post json_loads rend c name arguments timeout =
     (let (rid, c') = get_next_request_id c;
          headers = call_tool_headers c';
          payload = call_tool_payload name arguments rid;
          body = (case post (server_url c') payload headers timeout of
                    Inl e \<Rightarrow> Inl e
                  | Inr data \<Rightarrow> handle_response json_loads rend data)
      in (case body of
            Inl (Exc RequestException msg) \<Rightarrow>
              Inl (Exc PlainException
                    (''HTTP Error calling MCP tool '' @ [CHR 0x27] @ name @ [CHR 0x27] @ '': ''
                       @ msg))
          | Inl (Exc JSONDecodeError msg) \<Rightarrow>
              Inl (Exc PlainException (''Invalid JSON response from MCP server: '' @ msg))
          | other \<Rightarrow> other,
          c'))"

section \<open>The tool catalog (shared/mcp\_tools.py)\<close>

text \<open>
  \<^verbatim>\<open>tool_func\<close>, the closure made by \<^verbatim>\<open>create_tool_func(tool_name)\<close>. \<^verbatim>\<open>json.dumps\<close> is a
  parameter that raises or returns the text. Every exception raised in the \<^verbatim>\<open>try\<close> is
  turned into the returned string.
\<close>

definition tool_func ::
  "http_post \<Rightarrow> loads \<Rightarrow> (json \<Rightarrow> string) \<Rightarrow> (json \<Rightarrow> exc + string) \<Rightarrow> mcp_client \<Rightarrow> string
     \<Rightarrow> (string \<times> json) list \<Rightarrow> (exc + string) \<times> mcp_client" where
  "tool_func post json_loads rend json_dumps c name kwargs =
     (let (r, c') = call_tool post json_loads rend c name (JObj kwargs) 30;
          body = (case r of
                    Inl e \<Rightarrow> Inl e
                  | Inr (JObj d) \<Rightarrow> json_dumps (JObj d)
                  | Inr (JArr xs) \<Rightarrow> json_dumps (JArr xs)
                  | Inr v \<Rightarrow> Inr (py_str rend v))
      in (case body of
            Inl e \<Rightarrow> Inr (''Error executing '' @ name @ '': '' @ exc_str e)
          | Inr s \<Rightarrow> Inr s,
          c'))"

text \<open>
  A LangChain \<^verbatim>\<open>Tool\<close>: its name and description; its \<^verbatim>\<open>func\<close> is
  \<^verbatim>\<open>tool_func\<close> for that name, on the client shared by the whole catalog.
\<close>

record tool =
  tool_name :: string
  tool_description :: string

definition create_tool :: "string \<Rightarrow> string \<Rightarrow> tool" where
  "create_tool name descr = \<lparr>tool_name = name, tool_description = descr\<rparr>"

definition invoke_tool ::
  "http_post \<Rightarrow> loads \<Rightarrow> (json \<Rightarrow> string) \<Rightarrow> (json \<Rightarrow> exc + string) \<Rightarrow> mcp_client \<Rightarrow> tool
     \<Rightarrow> (string \<times> json) list \<Rightarrow> (exc + string) \<times> mcp_client" where
  "invoke_tool post json_loads rend json_dumps c t kwargs =
     tool_func post json_loads rend json_dumps c (tool_name t) kwargs"

text \<open>The dict literal of \<^verbatim>\<open>wrap_mcp_tools\<close>, as the list of its items.\<close>

definition tool_table :: "(string \<times> tool) list" where
  "tool_table =
    [
     (''find_campaigns'',
      create_tool ''find_campaigns''
        ''Find campaigns by organization ID. Args: organization_id (int). Returns: List of campaigns with IDs, names, statuses, and budgets.''),
     (''get_campaign_info'',
      create_tool ''get_campaign_info''
        ''Get detailed campaign information including metrics. Args: campaign_id (int). Returns: Campaign details with spend, impressions, clicks, CTR, etc.''),
     (''create_campaign'',
      create_tool ''create_campaign''
        ''Create a new campaign. Args: name (str), organization_id (int), budget (float). Returns: Created campaign ID and details.''),
     (''update_campaign'',
      create_tool ''update_campaign''
        ''Update campaign properties. Args: campaign_id (int), updates (dict with fields like name, status, budget). Returns: Updated campaign details.''),
     (''delete_campaign'',
      create_tool ''delete_campaign''
        ''Delete a campaign. Args: campaign_id (int). Returns: Deletion confirmation.''),
     (''update_campaign_budget'',
      create_tool ''update_campaign_budget''
        ''Update campaign budget. Args: campaign_id (int), budget (float). Returns: Updated budget confirmation.''),
     (''find_strategies'',
      create_tool ''find_strategies''
        ''Find strategies by campaign ID. Args: campaign_id (int). Returns: List of strategies with IDs, names, and statuses.''),
     (''get_strategy_info'',
      create_tool ''get_strategy_info''
        ''Get detailed strategy information. Args: strategy_id (int). Returns: Strategy details with performance metrics.''),
     (''create_strategy'',
      create_tool ''create_strategy''
        ''Create a new strategy. Args: campaign_id (int), name (str), budget (float, optional). Returns: Created strategy ID and details.''),
     (''update_strategy'',
      create_tool ''update_strategy''
        ''Update strategy properties. Args: strategy_id (int), updates (dict with fields like name, status, bid). Returns: Updated strategy details.''),
     (''delete_strategy'',
      create_tool ''delete_strategy''
        ''Delete a strategy. Args: strategy_id (int). Returns: Deletion confirmation.''),
     (''find_audience_segments'',
      create_tool ''find_audience_segments''
        ''Find audience segments by organization. Args: organization_id (int). Returns: List of audience segments.''),
     (''get_audience_segment_info'',
      create_tool ''get_audience_segment_info''
        ''Get audience segment details. Args: segment_id (int). Returns: Segment details with targeting criteria.''),
     (''create_audience_segment'',
      create_tool ''create_audience_segment''
        ''Create a new audience segment. Args: name (str), organization_id (int), criteria (dict, optional). Returns: Created segment ID and details.''),
     (''update_audience_segment'',
      create_tool ''update_audience_segment''
        ''Update audience segment. Args: segment_id (int), updates (dict). Returns: Updated segment details.''),
     (''delete_audience_segment'',
      create_tool ''delete_audience_segment''
        ''Delete an audience segment. Args: segment_id (int). Returns: Deletion confirmation.''),
     (''find_creatives'',
      create_tool ''find_creatives''
        ''Find creatives by organization. Args: organization_id (int). Returns: List of creatives with IDs, names, types, and statuses.''),
     (''get_creative_info'',
      create_tool ''get_creative_info''
        ''Get creative details and performance. Args: creative_id (int). Returns: Creative details with CTR and engagement metrics.''),
     (''create_creative'',
      create_tool ''create_creative''
        ''Create a new creative. Args: name (str), organization_id (int), creative_type (str), content (dict). Returns: Created creative ID and details.''),
     (''update_creative'',
      create_tool ''update_creative''
        ''Update creative properties. Args: creative_id (int), updates (dict). Returns: Updated creative details.''),
     (''delete_creative'',
      create_tool ''delete_creative''
        ''Delete a creative. Args: creative_id (int). Returns: Deletion confirmation.''),
     (''find_organizations'',
      create_tool ''find_organizations''
        ''Find all organizations accessible to the user. Args: None. Returns: List of organizations with IDs and names.''),
     (''get_organization_info'',
      create_tool ''get_organization_info''
        ''Get organization details. Args: organization_id (int). Returns: Organization details including settings and limits.''),
     (''find_users'',
      create_tool ''find_users''
        ''Find users by organization. Args: organization_id (int). Returns: List of users with IDs, names, and roles.''),
     (''get_user_info'',
      create_tool ''get_user_info''
        ''Get user details. Args: user_id (int). Returns: User details including email and role.''),
     (''get_user_permissions'',
      create_tool ''get_user_permissions''
        ''Get user permissions and access rights. Args: user_id (int). Returns: List of permissions and access levels.''),
     (''find_supply_sources'',
      create_tool ''find_supply_sources''
        ''Find supply sources (ad exchanges). Args: organization_id (int, optional). Returns: List of supply sources with IDs and names.''),
     (''get_supply_source_info'',
      create_tool ''get_supply_source_info''
        ''Get supply source details and performance. Args: supply_source_id (int). Returns: Supply source performance metrics.'')]"

text \<open>
  \<^verbatim>\<open>wrap_mcp_tools\<close> makes the client and the catalog; no request is sent.
\<close>

definition wrap_mcp_tools :: "string \<Rightarrow> string \<Rightarrow> mcp_client \<times> (string \<times> tool) list" where
  "wrap_mcp_tools url key = (MCPClient_init url key, tool_table)"

section \<open>The specification's reading of the keyword classifier\<close>

text \<open>
  The number of keywords of each flow that occur as substrings of the lower-cased query,
  for the flows in declaration order. This follows the wording of the specification
  (\<open>sublist\<close> is the substring relation of the library) and is compared with
  \<open>fallback_classification\<close> below.
\<close>

definition keyword_counts :: "string \<Rightarrow> (string \<times> nat) list" where
  "keyword_counts q =
     map (\<lambda>(flow, info).
            (flow, length (filter (\<lambda>kw. sublist kw (py_lower q)) (flow_keywords info))))
         FLOW_PATTERNS"

section \<open>Example inputs\<close>






text \<open>
  A client, a server that answers every request with a given body, a transport that fails
  on every request, a decoder that rejects every text, and a renderer for the values that
  \<open>py_str\<close> leaves open.
\<close>

definition example_client :: mcp_client where
  "example_client = MCPClient_init ''https://mcp.example/api/message'' ''secret''"

definition reply_with :: "json \<Rightarrow> http_post" where
  "reply_with body = (\<lambda>url payload headers timeout. Inr body)"

definition transport_fails :: "string \<Rightarrow> http_post" where
  "transport_fails msg = (\<lambda>url payload headers timeout. Inl (Exc RequestException msg))"

definition no_json :: loads where
  "no_json = (\<lambda>s. Inl ''Expecting value'')"

definition no_rend :: "json \<Rightarrow> string" where
  "no_rend = (\<lambda>v. [])"

text \<open>The body \<^verbatim>\<open>{"error": {"code": -32000, "message": "not found"}}\<close>.\<close>

definition not_found_body :: json where
  "not_found_body =
     JObj [(''error'', JObj [(''code'', JInt (- 32000)), (''message'', JStr ''not found'')])]"

text \<open>A stand-in for \<^verbatim>\<open>json.dumps\<close> that returns the empty text.\<close>

definition no_dumps :: "json \<Rightarrow> exc + string" where
  "no_dumps = (\<lambda>v. Inr [])"

section \<open>Properties of the keyword classifier\<close>

lemma sum_list_ones: "sum_list (map (\<lambda>x. Suc 0) xs) = length xs"
  by (induction xs) simp_all

lemma str_contains_sublist: "str_contains kw s = sublist kw s"
  by (induction s) (auto simp: sublist_Cons_right)

text \<open>The keys of \<open>FLOW_PATTERNS\<close> are distinct, so the loop appends one entry per flow.\<close>

lemma fill_scores_FLOW_PATTERNS:
  "fill_scores ql FLOW_PATTERNS
     = map (\<lambda>(flow, info). (flow, keyword_score ql info)) FLOW_PATTERNS"
  by (simp add: fill_scores_def FLOW_PATTERNS_def)

lemma flow_names_eq: "map fst FLOW_PATTERNS = flow_names"
  by (simp add: FLOW_PATTERNS_def flow_names_def)

text \<open>
  The loop of \<^verbatim>\<open>max\<close> keeps this invariant: the item kept so far sits in the part of the
  list already seen, everything before it scores strictly less and everything after it
  scores at most as much.
\<close>

lemma max_item_invariant:
  assumes "ps = pre @ best # post"
    and "\<forall>p \<in> set pre. snd p < snd best"
    and "\<forall>p \<in> set post. snd p \<le> snd best"
  shows "\<exists>pre' post'. ps @ xs = pre' @ max_item best xs # post'
           \<and> (\<forall>p \<in> set pre'. snd p < snd (max_item best xs))
           \<and> (\<forall>p \<in> set post'. snd p \<le> snd (max_item best xs))"
  using assms
proof (induction xs arbitrary: ps pre best post)
  case Nil
  then show ?case by auto
next
  case (Cons x xs)
  show ?case
  proof (cases "snd x > snd best")
    case True
    have a: "ps @ [x] = (pre @ best # post) @ x # []" using Cons.prems(1) by simp
    have b: "\<forall>p \<in> set (pre @ best # post). snd p < snd x"
      using Cons.prems(2,3) True by auto
    from Cons.IH[OF a b] True show ?thesis by simp
  next
    case False
    have a: "ps @ [x] = pre @ best # (post @ [x])" using Cons.prems(1) by simp
    have c: "\<forall>p \<in> set (post @ [x]). snd p \<le> snd best"
      using Cons.prems(3) False by auto
    from Cons.IH[OF a Cons.prems(2) c] False show ?thesis by simp
  qed
qed

lemma max_item_split:
  "\<exists>pre post. x # xs = pre @ max_item x xs # post
           \<and> (\<forall>p \<in> set pre. snd p < snd (max_item x xs))
           \<and> (\<forall>p \<in> set post. snd p \<le> snd (max_item x xs))"
  using max_item_invariant[of "[x]" "[]" x "[]" xs] by simp


lemma fill_scores_counts: "fill_scores (py_lower q) FLOW_PATTERNS = keyword_counts q"
  unfolding fill_scores_FLOW_PATTERNS keyword_counts_def
  by (simp add: keyword_score_def sum_list_ones str_contains_sublist)

lemma keyword_counts_not_Nil: "\<exists>x xs. keyword_counts q = x # xs"
  by (simp add: keyword_counts_def FLOW_PATTERNS_def)

lemma fallback_classification_max:
  "\<exists>x xs. keyword_counts q = x # xs \<and>
     fallback_classification q
       = Inr (fst (max_item x xs), JFloat (confidence_of (snd (max_item x xs))))"
proof -
  obtain x xs where k: "keyword_counts q = x # xs" using keyword_counts_not_Nil by blast
  then show ?thesis
    by (simp add: fallback_classification_def fill_scores_counts py_max_by_score_def
        split: prod.splits)
qed


text \<open>
  Claim C3. The keyword classifier counts, for each flow in declaration order, the
  keywords of the flow that occur as substrings of the lower-cased query. It returns the
  flow with the highest count, and of several flows with that count the one declared
  first: every flow declared before the winner has a strictly smaller count, every flow
  declared after it has at most the winner's count. The confidence is
  \<open>min (count / 3.0) 1.0\<close> when the winning count is positive and \<open>0.3\<close> when it is zero,
  that is when every count is zero.
\<close>

theorem fallback_classification_first_max:
  "\<exists>pre flow count post.
      keyword_counts q = pre @ (flow, count) # post
    \<and> (\<forall>p \<in> set pre. snd p < count)
    \<and> (\<forall>p \<in> set post. snd p \<le> count)
    \<and> fallback_classification q
        = Inr (flow, JFloat (if count > 0 then min (real count / 3.0) 1.0 else 0.3))"
proof -
  obtain x xs where k: "keyword_counts q = x # xs"
    and f: "fallback_classification q
             = Inr (fst (max_item x xs), JFloat (confidence_of (snd (max_item x xs))))"
    using fallback_classification_max by blast
  obtain pre post where s: "x # xs = pre @ max_item x xs # post"
    and l: "\<forall>p \<in> set pre. snd p < snd (max_item x xs)"
    and r: "\<forall>p \<in> set post. snd p \<le> snd (max_item x xs)"
    using max_item_split by blast
  show ?thesis
    apply (rule exI[of _ pre], rule exI[of _ "fst (max_item x xs)"],
           rule exI[of _ "snd (max_item x xs)"], rule exI[of _ post])
    using k f s l r by (simp add: confidence_of_def)
qed

text \<open>
  A query on which two flows tie with one keyword each (``create'' and ``report''): the
  flow declared first wins, with confidence one third.
\<close>

lemma py_lower_create_report: "py_lower ''Create report'' = ''create report''"
  by (simp add: py_lower_def lower_char_def char_of_def bit_Suc_0_iff)

lemma keyword_counts_create_report:
  "keyword_counts ''Create report''
     = [(''campaign_setup_flow'', 1), (''optimization_flow'', 0), (''analytics_flow'', 1),
        (''compliance_flow'', 0), (''creative_flow'', 0)]"
  unfolding keyword_counts_def py_lower_create_report
  by (simp add: FLOW_PATTERNS_def str_contains_sublist[symmetric])

theorem fallback_classification_first_max_witness:
  "fallback_classification ''Create report'' = Inr (''campaign_setup_flow'', JFloat (1 / 3))"
proof -
  obtain pre flow count post where
    d: "keyword_counts ''Create report'' = pre @ (flow, count) # post"
    and l: "\<forall>p \<in> set pre. snd p < count"
    and r: "\<forall>p \<in> set post. snd p \<le> count"
    and f: "fallback_classification ''Create report''
        = Inr (flow, JFloat (if count > 0 then min (real count / 3.0) 1.0 else 0.3))"
    using fallback_classification_first_max[of "''Create report''"] by blast
  from d l r have "flow = ''campaign_setup_flow'' \<and> count = 1"
    unfolding keyword_counts_create_report
    by (auto simp: Cons_eq_append_conv)
  with f show ?thesis by simp
qed

section \<open>Properties of classify\_intent\<close>

text \<open>
  The prompt is always built: every flow of the table has an example.
\<close>

lemma build_prompt_returns: "\<exists>p. build_prompt q = Inr p"
  by (simp add: build_prompt_def flow_descriptions_def describe_flow_def FLOW_PATTERNS_def)











text \<open>
  Claim C5. The confidence returned by \<open>classify_intent\<close> lies between 0 and 1. On the
  keyword path this holds (\<open>fallback_classification_valid\<close>). On the LLM path the value
  of the key \<^verbatim>\<open>confidence\<close> is returned as the LLM gave it: on the reply below, which
  names a flow of the table with the confidence 1.5, the call returns 1.5.
\<close>

theorem classify_intent_confidence_unchecked:
  \<open>classify_intent
      (\<lambda>r. Inr [Some ''{"flow": "analytics_flow", "confidence": 1.5}''])
      (\<lambda>s. if s = ''{"flow": "analytics_flow", "confidence": 1.5}''
            then Inr (JObj [(''flow'', JStr ''analytics_flow''), (''confidence'', JFloat 1.5)])
            else Inl ''Expecting value'')
      ''Generate report''
    = Inr (''analytics_flow'', JFloat 1.5)\<close>
proof -
  obtain p where p: "build_prompt ''Generate report'' = Inr p"
    using build_prompt_returns by blast
  have s: \<open>py_strip ''{"flow": "analytics_flow", "confidence": 1.5}''
            = ''{"flow": "analytics_flow", "confidence": 1.5}''\<close>
    by (simp add: py_strip_def is_space_def)
  have m: "not_in_flow_patterns (Some (JStr ''analytics_flow'')) = Inr False"
    by (simp add: not_in_flow_patterns_def flow_names_eq flow_names_def)
  show ?thesis
    by (simp add: classify_intent_def p classify_try_def s m dict_get_def format_2f_def)
qed

section \<open>Properties of route, execute\_flow and the constructor\<close>










text \<open>
  Claim C9. Without an API key argument and without \<^verbatim>\<open>OPENAI_API_KEY\<close> in the
  environment the constructor raises \<^verbatim>\<open>ValueError\<close>, whatever the OpenAI client
  constructor would do: no router is produced.
\<close>

theorem FlowRouter_init_requires_key:
  "getenv ''OPENAI_API_KEY'' = None \<Longrightarrow>
     FlowRouter_init OpenAI getenv None
       = Inl (Exc ValueError ''OpenAI API key is required. Set OPENAI_API_KEY environment variable or pass it to the constructor.'')"
  by (simp add: FlowRouter_init_def py_or_def truthy_def)

theorem FlowRouter_init_requires_key_witness:
  "FlowRouter_init (\<lambda>k. Inr ()) (\<lambda>name. None) None
       = Inl (Exc ValueError ''OpenAI API key is required. Set OPENAI_API_KEY environment variable or pass it to the constructor.'')"
  using FlowRouter_init_requires_key[of "\<lambda>name. None" "\<lambda>k. Inr ()"] by simp

lemma FlowRouter_init_key_given:
  "key \<noteq> [] \<Longrightarrow> OpenAI (Some key) = Inr c \<Longrightarrow>
     FlowRouter_init OpenAI getenv (Some key)
       = Inr \<lparr>router_api_key = Some key, router_client = c\<rparr>"
  by (simp add: FlowRouter_init_def py_or_def truthy_def)

section \<open>Properties of call\_tool\<close>

lemma dict_get_in_keys: "dict_get d k = Some v \<Longrightarrow> k \<in> set (map fst d)"
  unfolding dict_get_def by (metis image_eqI map_of_SomeD fst_conv set_map)

text \<open>
  What \<^verbatim>\<open>call_tool\<close> returns or raises, without the client state: the request carries
  the incremented request id.
\<close>

lemma call_tool_body:
  "fst (call_tool post loads rend c name args timeout)
     = (case (case post (server_url c) (call_tool_payload name args (request_id c + 1))
                     (call_tool_headers c) timeout of
                Inl e \<Rightarrow> Inl e
              | Inr data \<Rightarrow> handle_response loads rend data) of
          Inl (Exc RequestException msg) \<Rightarrow>
            Inl (Exc PlainException
                  (''HTTP Error calling MCP tool '' @ [CHR 0x27] @ name @ [CHR 0x27] @ '': ''
                     @ msg))
        | Inl (Exc JSONDecodeError msg) \<Rightarrow>
            Inl (Exc PlainException (''Invalid JSON response from MCP server: '' @ msg))
        | other \<Rightarrow> other)"
  by (simp add: call_tool_def get_next_request_id_def Let_def call_tool_headers_def)

lemma call_tool_request_id:
  "request_id (snd (call_tool post loads rend c name args timeout)) = request_id c + 1"
  by (simp add: call_tool_def get_next_request_id_def Let_def)

lemma handle_response_error:
  assumes "dict_get d ''error'' = Some (JObj err)"
    and "dict_get err ''code'' = Some (JInt code)"
    and "dict_get err ''message'' = Some (JStr msg)"
  shows "handle_response loads rend (JObj d)
           = Inl (Exc PlainException (''MCP Error ('' @ str_int code @ ''): '' @ msg))"
  using assms dict_get_in_keys[OF assms(1)]
  by (simp add: handle_response_def py_in_def py_getitem_def py_get_def)

text \<open>
  Claim C6, as amended. When the decoded body is an object whose \<^verbatim>\<open>error\<close> entry is an
  object with an integer \<^verbatim>\<open>code\<close> and a string \<^verbatim>\<open>message\<close>, \<^verbatim>\<open>call_tool\<close> raises a
  plain \<^verbatim>\<open>Exception\<close> whose text is \<^verbatim>\<open>MCP Error (code): message\<close>; it returns no
  value, and no default is put in place of the code or the message.
\<close>

theorem call_tool_rpc_error:
  assumes "post (server_url c) (call_tool_payload name args (request_id c + 1))
             (call_tool_headers c) timeout = Inr (JObj d)"
    and "dict_get d ''error'' = Some (JObj err)"
    and "dict_get err ''code'' = Some (JInt code)"
    and "dict_get err ''message'' = Some (JStr msg)"
  shows "fst (call_tool post loads rend c name args timeout)
           = Inl (Exc PlainException (''MCP Error ('' @ str_int code @ ''): '' @ msg))"
  unfolding call_tool_body
  by (simp add: assms(1) handle_response_error[OF assms(2,3,4)])

lemma str_int_m32000: "str_int (- 32000) = ''-32000''"
  by (simp add: str_int_def str_nat.simps char_of_def bit_Suc_0_iff)

theorem call_tool_rpc_error_witness:
  "fst (call_tool (reply_with not_found_body) no_json no_rend example_client
          ''get_campaign_info'' (JObj [(''campaign_id'', JInt 7)]) 30)
     = Inl (Exc PlainException ''MCP Error (-32000): not found'')"
  using call_tool_rpc_error[of "reply_with not_found_body" example_client
          "''get_campaign_info''" "JObj [(''campaign_id'', JInt 7)]" 30
          "[(''error'', JObj [(''code'', JInt (- 32000)), (''message'', JStr ''not found'')])]"
          "[(''code'', JInt (- 32000)), (''message'', JStr ''not found'')]"
          "- 32000" "''not found''" no_json no_rend]
  by (simp add: reply_with_def not_found_body_def dict_get_def str_int_m32000)

text \<open>
  Claim C6, as stated, asks for a failure of a type of its own that carries the code. On
  the body \<^verbatim>\<open>{"error": {"code": -32000, "message": "not found"}}\<close> the exception raised
  is of the class \<^verbatim>\<open>Exception\<close> itself, the very class raised when the transport fails,
  and the code -32000 is present only as part of its text.
\<close>

theorem call_tool_not_found_untyped:
  "fst (call_tool (reply_with not_found_body) no_json no_rend example_client
          ''get_campaign_info'' (JObj [(''campaign_id'', JInt 7)]) 30)
     = Inl (Exc PlainException ''MCP Error (-32000): not found'')
   \<and> fst (call_tool (transport_fails ''timed out'') no_json no_rend example_client
          ''get_campaign_info'' (JObj [(''campaign_id'', JInt 7)]) 30)
     = Inl (Exc PlainException
             (''HTTP Error calling MCP tool '' @ [CHR 0x27] @ ''get_campaign_info''
                @ [CHR 0x27] @ '': timed out''))"
  unfolding call_tool_body
  by (simp add: reply_with_def transport_fails_def not_found_body_def handle_response_def
      py_in_def py_getitem_def py_get_def dict_get_def str_int_m32000)

text \<open>
  Claim C10. When the request succeeds and the decoded body is an object with neither a
  \<^verbatim>\<open>result\<close> key nor an \<^verbatim>\<open>error\<close> key, \<^verbatim>\<open>call_tool\<close> returns \<^verbatim>\<open>None\<close> and raises
  nothing.
\<close>

theorem call_tool_no_result_no_error:
  assumes "post (server_url c) (call_tool_payload name args (request_id c + 1))
             (call_tool_headers c) timeout = Inr (JObj d)"
    and "''error'' \<notin> set (map fst d)"
    and "''result'' \<notin> set (map fst d)"
  shows "fst (call_tool post loads rend c name args timeout) = Inr JNull"
  unfolding call_tool_body
  using assms by (simp add: handle_response_def py_in_def)

theorem call_tool_no_result_no_error_witness:
  "fst (call_tool (reply_with (JObj [(''jsonrpc'', JStr ''2.0''), (''id'', JInt 1)]))
          no_json no_rend example_client ''find_campaigns''
          (JObj [(''organization_id'', JInt 100048)]) 30)
     = Inr JNull"
  using call_tool_no_result_no_error[of "reply_with (JObj [(''jsonrpc'', JStr ''2.0''), (''id'', JInt 1)])"
          example_client "''find_campaigns''" "JObj [(''organization_id'', JInt 100048)]" 30
          "[(''jsonrpc'', JStr ''2.0''), (''id'', JInt 1)]" no_json no_rend]
  by (simp add: reply_with_def)

text \<open>
  The unwrapping of a result. A content list whose first item is an object of type
  \<^verbatim>\<open>text\<close> with a string under \<^verbatim>\<open>text\<close> gives the decoded text, or the text itself
  when it is no JSON. A result that is no object, has no \<^verbatim>\<open>content\<close>, has a
  \<^verbatim>\<open>content\<close> that is no non-empty list, or whose first content item is an object of
  another type, is returned as it is.
\<close>

lemma unwrap_result_text_parsed:
  assumes "dict_get r ''content'' = Some (JArr (JObj item # rest))"
    and "dict_get item ''type'' = Some (JStr ''text'')"
    and "dict_get item ''text'' = Some (JStr s)"
    and "loads s = Inr v"
  shows "unwrap_result loads (JObj r) = Inr v"
  using assms by (simp add: unwrap_result_def py_get_def)

lemma unwrap_result_text_raw:
  assumes "dict_get r ''content'' = Some (JArr (JObj item # rest))"
    and "dict_get item ''type'' = Some (JStr ''text'')"
    and "dict_get item ''text'' = Some (JStr s)"
    and "loads s = Inl msg"
  shows "unwrap_result loads (JObj r) = Inr (JStr s)"
  using assms by (simp add: unwrap_result_def py_get_def)

lemma unwrap_result_not_dict:
  "(\<forall>r. result \<noteq> JObj r) \<Longrightarrow> unwrap_result loads result = Inr result"
  by (cases result) (simp_all add: unwrap_result_def)

lemma unwrap_result_no_content:
  "dict_get r ''content'' = None \<Longrightarrow> unwrap_result loads (JObj r) = Inr (JObj r)"
  by (simp add: unwrap_result_def)

lemma unwrap_result_content_no_list:
  "dict_get r ''content'' = Some c \<Longrightarrow> (\<forall>x xs. c \<noteq> JArr (x # xs)) \<Longrightarrow>
     unwrap_result loads (JObj r) = Inr (JObj r)"
  by (auto simp: unwrap_result_def split: json.splits list.splits)

lemma unwrap_result_other_type:
  "dict_get r ''content'' = Some (JArr (JObj item # rest)) \<Longrightarrow>
   dict_get item ''type'' \<noteq> Some (JStr ''text'') \<Longrightarrow>
     unwrap_result loads (JObj r) = Inr (JObj r)"
  by (auto simp: unwrap_result_def py_get_def split: option.splits)

text \<open>
  The handling calls \<^verbatim>\<open>content[0].get\<close> without testing that the first item is a dict,
  although it tests the types of \<^verbatim>\<open>result\<close> and \<^verbatim>\<open>content\<close>: a first item that is no
  object makes the call raise \<^verbatim>\<open>AttributeError\<close>.
\<close>

lemma unwrap_result_first_not_dict:
  "dict_get r ''content'' = Some (JArr (x # rest)) \<Longrightarrow> (\<forall>item. x \<noteq> JObj item) \<Longrightarrow>
     unwrap_result loads (JObj r) = Inl (no_attribute x ''get'')"
  by (cases x) (simp_all add: unwrap_result_def py_get_def)

text \<open>
  Claim C7. A result of the content shape is decoded or returned as text, and a result of
  any other shape is returned unchanged. The first two parts hold (lemmas
  \<open>unwrap_result_text_parsed\<close> and \<open>unwrap_result_text_raw\<close>). The last part fails
  on the success response \<^verbatim>\<open>{"result": {"content": ["done"]}}\<close>, which is not of the
  content shape: \<^verbatim>\<open>call_tool\<close> raises \<^verbatim>\<open>AttributeError\<close> where the claim has it
  return the result.
\<close>

theorem call_tool_content_item_not_dict:
  "fst (call_tool
          (reply_with (JObj [(''jsonrpc'', JStr ''2.0''), (''id'', JInt 1),
                            (''result'', JObj [(''content'', JArr [JStr ''done''])])]))
          no_json no_rend example_client ''delete_campaign''
          (JObj [(''campaign_id'', JInt 7)]) 30)
     = Inl (Exc AttributeError
             ([CHR 0x27] @ ''str'' @ [CHR 0x27] @ '' object has no attribute ''
                @ [CHR 0x27] @ ''get'' @ [CHR 0x27]))"
  unfolding call_tool_body
  by (simp add: reply_with_def handle_response_def py_in_def py_getitem_def dict_get_def
      unwrap_result_def py_get_def no_attribute_def)

text \<open>
  Likewise a text item whose \<^verbatim>\<open>text\<close> is no string makes \<^verbatim>\<open>json.loads\<close> raise
  \<^verbatim>\<open>TypeError\<close>, which the handler for \<^verbatim>\<open>JSONDecodeError\<close> does not catch.
\<close>

lemma call_tool_text_not_str:
  "fst (call_tool
          (reply_with (JObj [(''result'',
               JObj [(''content'', JArr [JObj [(''type'', JStr ''text''), (''text'', JInt 5)]])])]))
          no_json no_rend example_client ''delete_campaign''
          (JObj [(''campaign_id'', JInt 7)]) 30)
     = Inl (Exc TypeError ''the JSON object must be str, bytes or bytearray, not int'')"
  unfolding call_tool_body
  by (simp add: reply_with_def handle_response_def py_in_def py_getitem_def dict_get_def
      unwrap_result_def py_get_def)

section \<open>Properties of the tool catalog\<close>

text \<open>Every tool of the catalog is stored under its own name.\<close>

lemma tool_table_names: "(n, t) \<in> set tool_table \<Longrightarrow> tool_name t = n"
  unfolding tool_table_def create_tool_def by (simp only: list.set) auto

text \<open>
  \<^verbatim>\<open>tool_func\<close> raises nothing: whatever the call does, a string is returned.
\<close>

lemma tool_func_never_raises:
  "\<exists>s. fst (tool_func post loads rend dumps c name kwargs) = Inr s"
  by (auto simp: tool_func_def Let_def split: prod.splits sum.splits json.splits)

lemma tool_func_failure:
  "fst (call_tool post loads rend c name (JObj kwargs) 30) = Inl e \<Longrightarrow>
     fst (tool_func post loads rend dumps c name kwargs)
       = Inr (''Error executing '' @ name @ '': '' @ exc_str e)"
  by (auto simp: tool_func_def Let_def split: prod.splits)

text \<open>
  Claim C8, as amended. For every tool of the catalog built by \<^verbatim>\<open>wrap_mcp_tools\<close> and
  every failure of the underlying \<^verbatim>\<open>call_tool\<close>, invoking the tool raises nothing and
  returns the string \<^verbatim>\<open>Error executing <name>: <str(e)>\<close>, which names the tool and holds
  the text of the failure.
\<close>

theorem invoke_tool_failure_is_string:
  assumes "(n, t) \<in> set (snd (wrap_mcp_tools url key))"
    and "fst (call_tool post loads rend c n (JObj kwargs) 30) = Inl e"
  shows "fst (invoke_tool post loads rend dumps c t kwargs)
           = Inr (''Error executing '' @ n @ '': '' @ exc_str e)"
proof -
  from assms(1) have "tool_name t = n"
    by (simp add: wrap_mcp_tools_def tool_table_names)
  with assms(2) show ?thesis
    by (simp add: invoke_tool_def tool_func_failure)
qed

lemma find_campaigns_in_catalog:
  "(''find_campaigns'',
    create_tool ''find_campaigns''
      ''Find campaigns by organization ID. Args: organization_id (int). Returns: List of campaigns with IDs, names, statuses, and budgets.'')
   \<in> set (snd (wrap_mcp_tools ''https://mcp.example/api/message'' ''secret''))"
  unfolding wrap_mcp_tools_def tool_table_def by (simp only: snd_conv list.set insertI1)

lemma call_tool_timed_out:
  "fst (call_tool (transport_fails ''timed out'') no_json no_rend example_client
          ''find_campaigns'' (JObj [(''organization_id'', JInt 100048)]) 30)
     = Inl (Exc PlainException
             (''HTTP Error calling MCP tool '' @ [CHR 0x27] @ ''find_campaigns''
                @ [CHR 0x27] @ '': timed out''))"
  unfolding call_tool_body by (simp add: transport_fails_def)

theorem invoke_tool_failure_is_string_witness:
  "fst (invoke_tool (transport_fails ''timed out'') no_json no_rend no_dumps
          example_client
          (create_tool ''find_campaigns''
      ''Find campaigns by organization ID. Args: organization_id (int). Returns: List of campaigns with IDs, names, statuses, and budgets.'')
          [(''organization_id'', JInt 100048)])
     = Inr (''Error executing find_campaigns: HTTP Error calling MCP tool ''
              @ [CHR 0x27] @ ''find_campaigns'' @ [CHR 0x27] @ '': timed out'')"
  using invoke_tool_failure_is_string[OF find_campaigns_in_catalog call_tool_timed_out,
          of no_dumps]
  by simp

text \<open>
  Claim C8, as stated, has the failure reach the caller as a typed failure, never as an
  ordinary value. The tool \<^verbatim>\<open>get_campaign_info\<close> of the catalog, invoked while the server
  answers \<^verbatim>\<open>{"error": {"code": -32000, "message": "not found"}}\<close>, returns an ordinary
  string, as a successful invocation does.
\<close>

theorem tool_failure_returned_as_value:
  "map_of (snd (wrap_mcp_tools ''https://mcp.example/api/message'' ''secret''))
      ''get_campaign_info''
     = Some (create_tool ''get_campaign_info''
             ''Get detailed campaign information including metrics. Args: campaign_id (int). Returns: Campaign details with spend, impressions, clicks, CTR, etc.'')
   \<and> fst (invoke_tool (reply_with not_found_body) no_json no_rend no_dumps
               (fst (wrap_mcp_tools ''https://mcp.example/api/message'' ''secret''))
               (create_tool ''get_campaign_info''
             ''Get detailed campaign information including metrics. Args: campaign_id (int). Returns: Campaign details with spend, impressions, clicks, CTR, etc.'')
               [(''campaign_id'', JInt 7)])
     = Inr ''Error executing get_campaign_info: MCP Error (-32000): not found''"
proof -
  have m: "map_of tool_table ''get_campaign_info''
        = Some (create_tool ''get_campaign_info''
             ''Get detailed campaign information including metrics. Args: campaign_id (int). Returns: Campaign details with spend, impressions, clicks, CTR, etc.'')"
    unfolding tool_table_def by simp
  have c: "fst (call_tool (reply_with not_found_body) no_json no_rend
                 (MCPClient_init ''https://mcp.example/api/message'' ''secret'')
                 ''get_campaign_info'' (JObj [(''campaign_id'', JInt 7)]) 30)
            = Inl (Exc PlainException ''MCP Error (-32000): not found'')"
    unfolding call_tool_body
    by (simp add: reply_with_def not_found_body_def handle_response_def
        py_in_def py_getitem_def py_get_def dict_get_def str_int_m32000)
  show ?thesis
    by (simp add: wrap_mcp_tools_def m invoke_tool_def create_tool_def tool_func_failure[OF c])
qed

end
